theory Spec2Isabelle
  imports Complex_Main
begin

section \<open>JavaScript values used by the fallback analyser\<close>

text \<open>
  The code under study is \<^verbatim>\<open>analyzeFile\<close> of \<^verbatim>\<open>server/routes.ts\<close> (lines 869-1070) with its
  two local closures \<^verbatim>\<open>analyzeMediaContent\<close> and \<^verbatim>\<open>generateBoundingBoxes\<close>.

  A JavaScript string is a sequence of UTF-16 code units; \<^verbatim>\<open>split('')\<close> cuts it into its
  code units and \<^verbatim>\<open>charCodeAt(0)\<close> reads one of them, so a string is modelled as the list of
  its code units. String literals of the source are all ASCII and are written through
  \<open>js\<close>.

  JavaScript numbers are IEEE doubles. They are modelled as exact rationals. The seed is
  an integer far below \<open>2^53\<close> and \<^verbatim>\<open>seed % 1000\<close> is exact. The thresholds on \<open>r\<close> compare
  the double nearest to \<open>k / 1000\<close> with the double nearest to \<open>j / 1000\<close>, which are equal
  when \<open>k = j\<close> and ordered as \<open>k\<close> and \<open>j\<close> otherwise. The confidences that the ladders
  produce stay more than one ten-thousandth away from 0.35, 0.50 and 0.99, the values they
  are compared with, and \<^verbatim>\<open>seededRandom(10) * 2\<close> is an exact doubling. So the branches taken
  are those of the exact model, and the numeric fields of the result are the exact values
  that the doubles approximate. A double can lie one rounding step off the exact value
  (the image ladder's \<open>0.20 + 0.30 * 0.30\<close> is \<open>0.29000000000000004\<close>, while the video
  ladder's \<open>0.25 + 0.30 * 0.20\<close> is the double \<open>0.31\<close> itself), so a bound that the exact
  value meets with equality is stated below only where the double meets it too.
\<close>

type_synonym jsstring = "nat list"

definition js :: "string \<Rightarrow> jsstring" where
  "js s = map of_char s"

fun startsWith :: "jsstring \<Rightarrow> jsstring \<Rightarrow> bool" where
  "startsWith s [] = True"
| "startsWith [] (p # ps) = False"
| "startsWith (c # cs) (p # ps) = (c = p \<and> startsWith cs ps)"

fun includes_js :: "jsstring \<Rightarrow> jsstring \<Rightarrow> bool" where
  "includes_js [] w = (w = [])"
| "includes_js (c # cs) w = (startsWith (c # cs) w \<or> includes_js cs w)"

text \<open>
  \<^verbatim>\<open>toLowerCase\<close>: the letters A-Z go to a-z; the Kelvin sign U+212A goes to \<open>k\<close> and
  U+0130 goes to \<open>i\<close> followed by U+0307. These are the only code units whose lower case
  contains an ASCII unit. Every other unit is left as it is here: the real mapping sends
  it to units outside ASCII, so which ASCII words the result includes is the same.
\<close>

definition lowerUnit :: "nat \<Rightarrow> jsstring" where
  "lowerUnit c =
     (if 65 \<le> c \<and> c \<le> 90 then [c + 32]
      else if c = 8490 then [107]
      else if c = 304 then [105, 775]
      else [c])"

definition toLowerCase :: "jsstring \<Rightarrow> jsstring" where
  "toLowerCase s = concat (map lowerUnit s)"

text \<open>
  \<^verbatim>\<open>s.replace(p, r)\<close> with a string pattern replaces the first occurrence of \<open>p\<close> only.
\<close>

fun replace :: "jsstring \<Rightarrow> jsstring \<Rightarrow> jsstring \<Rightarrow> jsstring" where
  "replace [] p r = (if p = [] then r else [])"
| "replace (c # cs) p r =
     (if startsWith (c # cs) p then r @ drop (length p) (c # cs)
      else c # replace cs p r)"

fun digitsOf :: "nat \<Rightarrow> jsstring" where
  "digitsOf n = (if n < 10 then [48 + n] else digitsOf (n div 10) @ [48 + n mod 10])"

text \<open>
  \<^verbatim>\<open>x.toFixed(1)\<close>: the integer \<open>n\<close> with \<open>n / 10\<close> nearest to \<open>x\<close> (the larger one at a tie),
  printed with one digit after the point. The model rounds the exact rational; at a tie
  of the exact value the double may lie on either side.
\<close>

definition toFixed1 :: "rat \<Rightarrow> jsstring" where
  "toFixed1 x =
     (let a = \<bar>x\<bar>; n = nat \<lfloor>a * 10 + 1 / 2\<rfloor>
      in (if x < 0 then js ''-'' else []) @ digitsOf (n div 10) @ js ''.'' @ digitsOf (n mod 10))"

section \<open>Data\<close>

text \<open>
  Record fields are global constants in HOL, so only the object that \<^verbatim>\<open>analyzeFile\<close>
  returns on the fallback path keeps the bare field names of the source; the fields of
  the intermediate objects carry a prefix.
\<close>

record multer_file =
  originalname :: jsstring
  mimetype :: jsstring

text \<open>
  What a call reads from outside its arguments: the wall clock (\<^verbatim>\<open>Date.now()\<close>,
  \<^verbatim>\<open>new Date()\<close>, in milliseconds since the epoch) and one draw of \<^verbatim>\<open>Math.random()\<close>.
\<close>

record env =
  dateNow :: nat
  mathRandom :: rat

record anomaly =
  a_type :: jsstring
  a_severity :: jsstring

record media_content =
  mc_selectedAnomaly :: anomaly
  mc_confidence :: rat
  mc_deterministicRandom :: rat
  mc_isVideo :: bool

record bounding_box =
  class_name :: jsstring
  bb_confidence :: rat
  bbox :: "rat \<times> rat \<times> rat \<times> rat"
  is_anomaly :: bool
  priority :: jsstring

record privacy =
  epsilon :: rat
  delta :: rat

text \<open>
  \<open>timestamp\<close> is \<^verbatim>\<open>new Date().toISOString()\<close>; the model keeps the clock reading
  (milliseconds since the epoch) of which that string is the rendering.
\<close>

record meta =
  fileType :: jsstring
  analysisMethod :: jsstring
  timestamp :: nat
  confidenceThreshold :: rat
  frames_analyzed :: int
  privacy_impact :: privacy
  trainingDatasets :: "jsstring list"
  privacyPreserving :: bool
  federatedLearning :: bool
  source :: jsstring

record fallback_result =
  anomalyDetected :: bool
  anomalyType :: jsstring
  severity :: jsstring
  confidence :: rat
  description :: jsstring
  modelUsed :: jsstring
  processingTime :: int
  bounding_boxes :: "bounding_box list"
  recommendedAction :: jsstring
  metadata :: meta

record unsupported_result =
  u_anomalyDetected :: bool
  u_confidence :: rat
  u_modelUsed :: jsstring
  u_processingTime :: nat
  u_error :: jsstring

text \<open>
  The three shapes of object that \<^verbatim>\<open>analyzeFile\<close> returns. \<open>'s\<close> is the object built
  from a successful reply of the remote service.
\<close>

datatype 's analysis_result =
  Unsupported unsupported_result
| Service 's
| Fallback fallback_result

section \<open>analyzeMediaContent (lines 919-988)\<close>

definition charCodeSum :: "jsstring \<Rightarrow> nat" where
  "charCodeSum filename = foldl (\<lambda>acc char. acc + char) 0 filename"

definition some_includes :: "string list \<Rightarrow> jsstring \<Rightarrow> bool" where
  "some_includes ws lowerFilename = list_ex (\<lambda>w. includes_js lowerFilename (js w)) ws"

definition analyzeMediaContent :: "jsstring \<Rightarrow> jsstring \<Rightarrow> media_content" where
  "analyzeMediaContent filename mimeType =
    (let seed = charCodeSum filename;
         deterministicRandom = (of_nat (seed mod 1000) :: rat) / 1000;
         lowerFilename = toLowerCase filename;
         hasWeaponKeywords =
           some_includes [''gun'', ''weapon'', ''pistol'', ''rifle'', ''knife'', ''armed''] lowerFilename;
         hasBurglaryKeywords =
           some_includes [''burglar'', ''thief'', ''robbery'', ''break'', ''steal'', ''intrude''] lowerFilename;
         hasFightKeywords =
           some_includes [''fight'', ''violence'', ''assault'', ''attack''] lowerFilename;
         hasMovementKeywords =
           some_includes [''running'', ''chase'', ''escape'', ''movement''] lowerFilename;
         isVideoFile = startsWith mimeType (js ''video/'');
         (selectedAnomaly, confidence) =
           (if isVideoFile then
              (if hasWeaponKeywords \<or> deterministicRandom > 0.75 then
                 (\<lparr>a_type = js ''weapon_detected'', a_severity = js ''critical''\<rparr>,
                  0.88 + deterministicRandom * 0.11)
               else if hasBurglaryKeywords \<or> deterministicRandom > 0.65 then
                 (\<lparr>a_type = js ''burglary'', a_severity = js ''critical''\<rparr>,
                  0.82 + deterministicRandom * 0.15)
               else if hasFightKeywords \<or> deterministicRandom > 0.55 then
                 (\<lparr>a_type = js ''fighting'', a_severity = js ''high''\<rparr>,
                  0.75 + deterministicRandom * 0.20)
               else if hasMovementKeywords \<or> deterministicRandom > 0.45 then
                 (\<lparr>a_type = js ''suspicious_activity'', a_severity = js ''medium''\<rparr>,
                  0.65 + deterministicRandom * 0.25)
               else if deterministicRandom > 0.35 then
                 (\<lparr>a_type = js ''trespassing'', a_severity = js ''medium''\<rparr>,
                  0.55 + deterministicRandom * 0.30)
               else if deterministicRandom > 0.20 then
                 (\<lparr>a_type = js ''loitering'', a_severity = js ''low''\<rparr>,
                  0.40 + deterministicRandom * 0.25)
               else
                 (\<lparr>a_type = js ''normal'', a_severity = js ''low''\<rparr>,
                  0.25 + deterministicRandom * 0.30))
            else
              (if hasWeaponKeywords \<or> deterministicRandom > 0.85 then
                 (\<lparr>a_type = js ''weapon_detected'', a_severity = js ''critical''\<rparr>,
                  0.85 + deterministicRandom * 0.14)
               else if hasBurglaryKeywords \<or> deterministicRandom > 0.75 then
                 (\<lparr>a_type = js ''burglary'', a_severity = js ''critical''\<rparr>,
                  0.78 + deterministicRandom * 0.17)
               else if hasFightKeywords \<or> deterministicRandom > 0.70 then
                 (\<lparr>a_type = js ''fighting'', a_severity = js ''high''\<rparr>,
                  0.72 + deterministicRandom * 0.18)
               else if deterministicRandom > 0.60 then
                 (\<lparr>a_type = js ''trespassing'', a_severity = js ''high''\<rparr>,
                  0.65 + deterministicRandom * 0.25)
               else if deterministicRandom > 0.45 then
                 (\<lparr>a_type = js ''suspicious_activity'', a_severity = js ''medium''\<rparr>,
                  0.50 + deterministicRandom * 0.30)
               else if deterministicRandom > 0.30 then
                 (\<lparr>a_type = js ''loitering'', a_severity = js ''low''\<rparr>,
                  0.35 + deterministicRandom * 0.25)
               else
                 (\<lparr>a_type = js ''normal'', a_severity = js ''low''\<rparr>,
                  0.20 + deterministicRandom * 0.30)))
     in \<lparr>mc_selectedAnomaly = selectedAnomaly, mc_confidence = confidence,
         mc_deterministicRandom = deterministicRandom, mc_isVideo = isVideoFile\<rparr>)"

section \<open>generateBoundingBoxes (lines 998-1032)\<close>

text \<open>
  The closure reads \<^verbatim>\<open>confidence\<close> and \<^verbatim>\<open>selectedAnomaly\<close> of the enclosing function; they
  are the first two arguments here. A parameter whose name is also a field of the result
  is written with a prime. \<^verbatim>\<open>isVideoFile\<close> is a parameter that the body never reads.
\<close>

definition seededRandom :: "nat \<Rightarrow> nat \<Rightarrow> rat" where
  "seededRandom seed offset = of_nat ((seed + offset) mod 1000) / 1000"

definition anomalyBox :: "rat \<Rightarrow> anomaly \<Rightarrow> jsstring \<Rightarrow> nat \<Rightarrow> nat \<Rightarrow> bounding_box" where
  "anomalyBox confidence' selectedAnomaly anomalyType' seed i =
     (let x = 50 + seededRandom seed (i * 10 + 20) * 350;
          y = 30 + seededRandom seed (i * 10 + 21) * 200;
          width = 120 + seededRandom seed (i * 10 + 22) * 80;
          height = 180 + seededRandom seed (i * 10 + 23) * 100
      in \<lparr>class_name = (if i = 0 then replace anomalyType' (js ''_'') (js '' '') else js ''person''),
          bb_confidence = (if i = 0 then confidence' else 0.6 + seededRandom seed (i * 10 + 24) * 0.3),
          bbox = (x, y, x + width, y + height),
          is_anomaly = (i = 0),
          priority = (if i = 0 then a_severity selectedAnomaly else js ''normal'')\<rparr>)"

function boxesLoop ::
  "rat \<Rightarrow> anomaly \<Rightarrow> jsstring \<Rightarrow> nat \<Rightarrow> nat \<Rightarrow> nat \<Rightarrow> bounding_box list \<Rightarrow> bounding_box list" where
  "boxesLoop confidence' selectedAnomaly anomalyType' seed numBoxes i boxes =
     (if i < numBoxes
      then boxesLoop confidence' selectedAnomaly anomalyType' seed numBoxes (i + 1)
             (boxes @ [anomalyBox confidence' selectedAnomaly anomalyType' seed i])
      else boxes)"
  by pat_completeness auto
termination
  by (relation "measure (\<lambda>(c, a, t, s, n, i, b). n - i)") auto

definition generateBoundingBoxes ::
  "rat \<Rightarrow> anomaly \<Rightarrow> jsstring \<Rightarrow> bool \<Rightarrow> nat \<Rightarrow> bool \<Rightarrow> bounding_box list" where
  "generateBoundingBoxes confidence' selectedAnomaly anomalyType' isAnomaly seed isVideoFile =
     (if \<not> isAnomaly then
        [\<lparr>class_name = js ''person'',
          bb_confidence = 0.85 + seededRandom seed 1 * 0.1,
          bbox = (120 + seededRandom seed 2 * 200, 80 + seededRandom seed 3 * 150,
                  300 + seededRandom seed 4 * 100, 280 + seededRandom seed 5 * 120),
          is_anomaly = False,
          priority = js ''normal''\<rparr>]
      else
        (let numBoxes = nat \<lfloor>seededRandom seed 10 * 2\<rfloor> + 1
         in boxesLoop confidence' selectedAnomaly anomalyType' seed numBoxes 0 []))"

section \<open>analyzeFile (lines 869-1070)\<close>

text \<open>
  \<open>localFallback\<close> is the body from line 912 on. \<open>delay\<close> is the time of line 916, which
  the function waits for and nothing reads. Console output is left out.
\<close>

definition localFallback :: "env \<Rightarrow> multer_file \<Rightarrow> fallback_result" where
  "localFallback e f =
    (let delay = 1000 + mathRandom e * 2000;
         mc = analyzeMediaContent (originalname f) (mimetype f);
         selectedAnomaly = mc_selectedAnomaly mc;
         confidence = mc_confidence mc;
         deterministicRandom = mc_deterministicRandom mc;
         mediaIsVideo = mc_isVideo mc;
         isAnomaly = (a_type selectedAnomaly \<noteq> js ''normal'' \<and> confidence \<ge> 0.50);
         displayConfidence = min 0.99 (max 0.35 confidence);
         actualSeverity = (if confidence < 0.50 then js ''uncertain'' else a_severity selectedAnomaly);
         seed = charCodeSum (originalname f);
         boundingBoxes =
           generateBoundingBoxes confidence selectedAnomaly (a_type selectedAnomaly) isAnomaly seed mediaIsVideo;
         media = (if mediaIsVideo then js ''video'' else js ''image'')
     in \<lparr>anomalyDetected = (isAnomaly \<or> confidence \<ge> 0.35),
         anomalyType = a_type selectedAnomaly,
         severity = actualSeverity,
         confidence = displayConfidence,
         description =
           (if confidence < 0.50 then
              js ''Uncertain detection: possible '' @ replace (a_type selectedAnomaly) (js ''_'') (js '' '')
                @ js '' in '' @ media @ js '' with '' @ toFixed1 (displayConfidence * 100)
                @ js ''% confidence''
            else if isAnomaly then
              replace (a_type selectedAnomaly) (js ''_'') (js '' '') @ js '' detected in '' @ media
                @ js '' with '' @ toFixed1 (displayConfidence * 100) @ js ''% confidence''
            else js ''Normal activity detected in '' @ media),
         modelUsed =
           (if mediaIsVideo then js ''Enhanced PPFL Video Analyzer v2.1 (Fallback)''
            else js ''Enhanced PPFL Image Detector v2.0 (Fallback)''),
         processingTime =
           \<lfloor>if mediaIsVideo then 2500 + deterministicRandom * 2000 else 1500 + deterministicRandom * 1000\<rfloor>,
         bounding_boxes = boundingBoxes,
         recommendedAction =
           (if confidence < 0.50 then js ''manual_review''
            else if isAnomaly then js ''alert'' else js ''none''),
         metadata =
           \<lparr>fileType = media,
            analysisMethod =
              (if mediaIsVideo then js ''temporal_video_analysis_pipeline''
               else js ''enhanced_detection_pipeline''),
            timestamp = dateNow e,
            confidenceThreshold = 0.50,
            frames_analyzed = (if mediaIsVideo then \<lfloor>5 + deterministicRandom * 10\<rfloor> else 1),
            privacy_impact = \<lparr>epsilon = 0.08 + deterministicRandom * 0.04, delta = 0.00001\<rparr>,
            trainingDatasets =
              (if mediaIsVideo then
                 [js ''UCF-Crime'', js ''ShanghaiTech Campus'', js ''Avenue Dataset'',
                  js ''Kinetics-400'', js ''ActivityNet'']
               else
                 [js ''UCF-Crime'', js ''ShanghaiTech Campus'', js ''Avenue Dataset'',
                  js ''Custom Weapon Detection'']),
            privacyPreserving = True,
            federatedLearning = True,
            source = js ''enhanced_local_fallback''\<rparr>\<rparr>)"

text \<open>
  The remote service (lines 883-910) is an input of the model: \<open>Some s\<close> when the service
  is reached and answers with \<^verbatim>\<open>success\<close>, \<open>s\<close> being the object built from its reply;
  \<open>None\<close> when it is not available, throws, or answers without \<^verbatim>\<open>success\<close>, which are the
  cases that reach the fallback.
\<close>

definition analyzeFile :: "'s option \<Rightarrow> env \<Rightarrow> multer_file \<Rightarrow> 's analysis_result" where
  "analyzeFile service e f =
    (let isVideo = startsWith (mimetype f) (js ''video/'');
         isImage = startsWith (mimetype f) (js ''image/'')
     in if \<not> isVideo \<and> \<not> isImage then
          Unsupported \<lparr>u_anomalyDetected = False, u_confidence = 0,
                       u_modelUsed = js ''PPFL Anomaly Detector v1.2.0'',
                       u_processingTime = dateNow e,
                       u_error = js ''Unsupported file type''\<rparr>
        else (case service of
                Some s \<Rightarrow> Service s
              | None \<Rightarrow> Fallback (localFallback e f)))"

section \<open>The specification's vocabulary\<close>

definition supported :: "jsstring \<Rightarrow> bool" where
  "supported mimeType = (startsWith mimeType (js ''video/'') \<or> startsWith mimeType (js ''image/''))"

text \<open>The ladder's choice for an upload: what \<^verbatim>\<open>analyzeFile\<close> destructures at line 990.\<close>

definition ladderCategory :: "multer_file \<Rightarrow> jsstring" where
  "ladderCategory f = a_type (mc_selectedAnomaly (analyzeMediaContent (originalname f) (mimetype f)))"

definition ladderSeverity :: "multer_file \<Rightarrow> jsstring" where
  "ladderSeverity f = a_severity (mc_selectedAnomaly (analyzeMediaContent (originalname f) (mimetype f)))"

definition rawConfidence :: "multer_file \<Rightarrow> rat" where
  "rawConfidence f = mc_confidence (analyzeMediaContent (originalname f) (mimetype f))"

definition clamp :: "rat \<Rightarrow> rat \<Rightarrow> rat \<Rightarrow> rat" where
  "clamp x lo hi = (if x < lo then lo else if hi < x then hi else x)"

text \<open>
  The seed and \<open>r\<close> in the specification's words: the sum of the character codes, and
  that sum modulo 1000 over 1000.
\<close>

definition seedOf :: "jsstring \<Rightarrow> nat" where
  "seedOf filename = sum_list filename"

definition rOf :: "jsstring \<Rightarrow> rat" where
  "rOf filename = of_nat (seedOf filename mod 1000) / 1000"

text \<open>Keyword gating: a case-insensitive substring match against the file name.\<close>

definition keywordIn :: "string list \<Rightarrow> jsstring \<Rightarrow> bool" where
  "keywordIn ws filename = list_ex (\<lambda>w. includes_js (toLowerCase filename) (js w)) ws"

definition weaponWords :: "string list" where
  "weaponWords = [''gun'', ''weapon'', ''pistol'', ''rifle'', ''knife'', ''armed'']"

definition burglaryWords :: "string list" where
  "burglaryWords = [''burglar'', ''thief'', ''robbery'', ''break'', ''steal'', ''intrude'']"

definition fightWords :: "string list" where
  "fightWords = [''fight'', ''violence'', ''assault'', ''attack'']"

definition movementWords :: "string list" where
  "movementWords = [''running'', ''chase'', ''escape'', ''movement'']"

text \<open>
  A ladder is an ordered list of rules (condition, category, severity, confidence); the
  first rule whose condition holds wins.
\<close>

type_synonym ladder_rule = "bool \<times> string \<times> string \<times> rat"

definition videoLadder :: "jsstring \<Rightarrow> ladder_rule list" where
  "videoLadder filename =
     (let r = rOf filename in
      [(keywordIn weaponWords filename \<or> r > 0.75, ''weapon_detected'', ''critical'', 0.88 + r * 0.11),
       (keywordIn burglaryWords filename \<or> r > 0.65, ''burglary'', ''critical'', 0.82 + r * 0.15),
       (keywordIn fightWords filename \<or> r > 0.55, ''fighting'', ''high'', 0.75 + r * 0.20),
       (keywordIn movementWords filename \<or> r > 0.45, ''suspicious_activity'', ''medium'', 0.65 + r * 0.25),
       (r > 0.35, ''trespassing'', ''medium'', 0.55 + r * 0.30),
       (r > 0.20, ''loitering'', ''low'', 0.40 + r * 0.25),
       (True, ''normal'', ''low'', 0.25 + r * 0.30)])"

definition imageLadder :: "jsstring \<Rightarrow> ladder_rule list" where
  "imageLadder filename =
     (let r = rOf filename in
      [(keywordIn weaponWords filename \<or> r > 0.85, ''weapon_detected'', ''critical'', 0.85 + r * 0.14),
       (keywordIn burglaryWords filename \<or> r > 0.75, ''burglary'', ''critical'', 0.78 + r * 0.17),
       (keywordIn fightWords filename \<or> r > 0.70, ''fighting'', ''high'', 0.72 + r * 0.18),
       (r > 0.60, ''trespassing'', ''high'', 0.65 + r * 0.25),
       (r > 0.45, ''suspicious_activity'', ''medium'', 0.50 + r * 0.30),
       (r > 0.30, ''loitering'', ''low'', 0.35 + r * 0.25),
       (True, ''normal'', ''low'', 0.20 + r * 0.30)])"

definition firstMatching :: "ladder_rule list \<Rightarrow> ladder_rule option" where
  "firstMatching rules = find fst rules"

definition ladderFor :: "jsstring \<Rightarrow> jsstring \<Rightarrow> ladder_rule list" where
  "ladderFor mimeType filename =
     (if startsWith mimeType (js ''video/'') then videoLadder filename else imageLadder filename)"

text \<open>The flag \<^verbatim>\<open>isAnomaly\<close> of line 991.\<close>

definition isAnomalyOf :: "multer_file \<Rightarrow> bool" where
  "isAnomalyOf f = (ladderCategory f \<noteq> js ''normal'' \<and> rawConfidence f \<ge> 0.50)"

text \<open>Every underscore replaced by a space, as the specification words the label.\<close>

definition underscoresToSpaces :: "jsstring \<Rightarrow> jsstring" where
  "underscoresToSpaces s = map (\<lambda>c. if c = 95 then 32 else c) s"

definition boxOrdered :: "bounding_box \<Rightarrow> bool" where
  "boxOrdered b = (case bbox b of (x1, y1, x2, y2) \<Rightarrow> x1 < x2 \<and> y1 < y2)"

text \<open>
  Reading \<^verbatim>\<open>bounding_boxes\<close> off a returned object: only the fallback object has the
  property.
\<close>

definition boxesOf :: "'s analysis_result \<Rightarrow> bounding_box list option" where
  "boxesOf res = (case res of Fallback r \<Rightarrow> Some (bounding_boxes r) | _ \<Rightarrow> None)"

text \<open>A well-formed classification result, by the ranges of the specification's data model.\<close>

definition categories :: "jsstring list" where
  "categories = map js [''weapon_detected'', ''burglary'', ''fighting'', ''suspicious_activity'',
                        ''trespassing'', ''loitering'', ''normal'']"

definition severities :: "jsstring list" where
  "severities = map js [''low'', ''medium'', ''high'', ''critical'', ''uncertain'']"

definition wellFormed :: "fallback_result \<Rightarrow> bool" where
  "wellFormed r =
     (anomalyType r \<in> set categories \<and> severity r \<in> set severities
      \<and> 0 \<le> confidence r \<and> confidence r \<le> 1
      \<and> 1 \<le> length (bounding_boxes r) \<and> length (bounding_boxes r) \<le> 2
      \<and> list_all (\<lambda>b. 0 \<le> bb_confidence b \<and> bb_confidence b \<le> 1 \<and> boxOrdered b) (bounding_boxes r)
      \<and> 0 \<le> processingTime r)"

section \<open>Sample inputs\<close>

definition hallway_jpg :: multer_file where
  "hallway_jpg = \<lparr>originalname = js ''normal_hallway.jpg'', mimetype = js ''image/jpeg''\<rparr>"

definition corridor_jpg :: multer_file where
  "corridor_jpg = \<lparr>originalname = js ''corridor.jpg'', mimetype = js ''image/jpeg''\<rparr>"

definition frontdoor_mp4 :: multer_file where
  "frontdoor_mp4 = \<lparr>originalname = js ''frontdoor.mp4'', mimetype = js ''video/mp4''\<rparr>"

definition robbery_mp4 :: multer_file where
  "robbery_mp4 = \<lparr>originalname = js ''armed_robbery_clip.mp4'', mimetype = js ''video/mp4''\<rparr>"

definition report_pdf :: multer_file where
  "report_pdf = \<lparr>originalname = js ''report.pdf'', mimetype = js ''application/pdf''\<rparr>"

text \<open>An empty name, and a name with a code unit outside ASCII (U+00E9 in the fourth place).\<close>

definition unnamed_png :: multer_file where
  "unnamed_png = \<lparr>originalname = [], mimetype = js ''image/png''\<rparr>"

definition cafe_jpg :: multer_file where
  "cafe_jpg = \<lparr>originalname = [99, 97, 102, 233, 46, 106, 112, 103], mimetype = js ''image/jpeg''\<rparr>"

definition morning :: env where
  "morning = \<lparr>dateNow = 1755265138394, mathRandom = 0.25\<rparr>"

definition evening :: env where
  "evening = \<lparr>dateNow = 1755265268138, mathRandom = 0.75\<rparr>"

section \<open>The ladder\<close>

lemma r_range: "0 \<le> (of_nat (n mod 1000) :: rat) / 1000 \<and> (of_nat (n mod 1000) :: rat) / 1000 < 1"
proof -
  have "n mod 1000 < 1000" by simp
  then have "(of_nat (n mod 1000) :: rat) < of_nat 1000" unfolding of_nat_less_iff .
  then show ?thesis by simp
qed

lemma mc_random: "mc_deterministicRandom (analyzeMediaContent fn mt) = of_nat (charCodeSum fn mod 1000) / 1000"
  by (simp add: analyzeMediaContent_def Let_def split_def)

lemma mc_video: "mc_isVideo (analyzeMediaContent fn mt) = startsWith mt (js ''video/'')"
  by (simp add: analyzeMediaContent_def Let_def split_def)

lemma conf_range: "0.2 \<le> mc_confidence (analyzeMediaContent fn mt) \<and> mc_confidence (analyzeMediaContent fn mt) < 0.99"
proof -
  define r where "r = (of_nat (charCodeSum fn mod 1000) :: rat) / 1000"
  have r: "0 \<le> r" "r < 1" using r_range[of "charCodeSum fn"] by (simp_all add: r_def)
  show ?thesis
    unfolding analyzeMediaContent_def Let_def r_def[symmetric] split_def
    using r by simp
qed

lemma normal_conf:
  "a_type (mc_selectedAnomaly (analyzeMediaContent fn mt)) = js ''normal''
     \<Longrightarrow> mc_confidence (analyzeMediaContent fn mt) < 0.35"
proof -
  define r where "r = (of_nat (charCodeSum fn mod 1000) :: rat) / 1000"
  have r: "0 \<le> r" "r < 1" using r_range[of "charCodeSum fn"] by (simp_all add: r_def)
  show "a_type (mc_selectedAnomaly (analyzeMediaContent fn mt)) = js ''normal''
     \<Longrightarrow> mc_confidence (analyzeMediaContent fn mt) < 0.35"
    unfolding analyzeMediaContent_def Let_def r_def[symmetric] split_def
    using r by (simp add: js_def split: if_splits)
qed

lemma low_conf_random:
  "mc_confidence (analyzeMediaContent fn mt) < 0.5
     \<Longrightarrow> mc_deterministicRandom (analyzeMediaContent fn mt) \<le> 0.45"
proof -
  define r where "r = (of_nat (charCodeSum fn mod 1000) :: rat) / 1000"
  have r: "0 \<le> r" "r < 1" using r_range[of "charCodeSum fn"] by (simp_all add: r_def)
  show "mc_confidence (analyzeMediaContent fn mt) < 0.5
     \<Longrightarrow> mc_deterministicRandom (analyzeMediaContent fn mt) \<le> 0.45"
    unfolding analyzeMediaContent_def Let_def r_def[symmetric] split_def
    using r by (simp split: if_splits)
qed

lemma category_enum: "a_type (mc_selectedAnomaly (analyzeMediaContent fn mt)) \<in> set categories"
  by (simp add: analyzeMediaContent_def Let_def split_def categories_def)

lemma severity_enum:
  "a_severity (mc_selectedAnomaly (analyzeMediaContent fn mt))
     \<in> {js ''low'', js ''medium'', js ''high'', js ''critical''}"
  by (simp add: analyzeMediaContent_def Let_def split_def)

lemma replace_category:
  "t \<in> set categories \<Longrightarrow> replace t (js ''_'') (js '' '') = underscoresToSpaces t"
  by (auto simp: categories_def js_def underscoresToSpaces_def)

section \<open>Bounding boxes\<close>

lemma seededRandom_range: "0 \<le> seededRandom seed off \<and> seededRandom seed off < 1"
  unfolding seededRandom_def by (rule r_range)

lemma seededRandom_small:
  assumes "(of_nat (seed mod 1000) :: rat) / 1000 \<le> 0.45"
  shows "seededRandom seed 2 < 0.9"
proof -
  have "(of_nat (seed mod 1000) :: rat) \<le> of_nat 450" using assms by simp
  then have k: "seed mod 1000 \<le> 450" unfolding of_nat_le_iff .
  have "(seed + 2) mod 1000 = (seed mod 1000 + 2) mod 1000" by presburger
  also have "\<dots> = seed mod 1000 + 2" using k by simp
  finally have "(seed + 2) mod 1000 \<le> 452" using k by simp
  then have "(of_nat ((seed + 2) mod 1000) :: rat) \<le> of_nat 452" unfolding of_nat_le_iff .
  then show ?thesis by (simp add: seededRandom_def)
qed

lemma boxesLoop_map:
  "boxesLoop c a t s n i bs = bs @ map (anomalyBox c a t s) [i..<n]"
proof (induction c a t s n i bs rule: boxesLoop.induct)
  case (1 c a t s n i bs)
  show ?case
  proof (cases "i < n")
    case True
    then show ?thesis using 1 by (subst boxesLoop.simps) (simp add: upt_conv_Cons)
  next
    case False
    then show ?thesis by (subst boxesLoop.simps) simp
  qed
qed

lemma numBoxes_cases: "nat \<lfloor>seededRandom seed 10 * 2\<rfloor> + 1 = 1 \<or> nat \<lfloor>seededRandom seed 10 * 2\<rfloor> + 1 = 2"
proof -
  have r: "0 \<le> seededRandom seed 10" "seededRandom seed 10 < 1" using seededRandom_range by auto
  then have "0 \<le> \<lfloor>seededRandom seed 10 * 2\<rfloor>" "\<lfloor>seededRandom seed 10 * 2\<rfloor> < 2" by (simp_all add: floor_less_iff)
  then show ?thesis by linarith
qed

lemma anomaly_boxes_map:
  "isA \<Longrightarrow> generateBoundingBoxes c a t isA s v
     = map (anomalyBox c a t s) [0..<nat \<lfloor>seededRandom s 10 * 2\<rfloor> + 1]"
  by (simp only: generateBoundingBoxes_def Let_def boxesLoop_map not_True_eq_False if_False append_Nil)

lemma anomaly_boxes_cases:
  assumes "isA"
  shows "generateBoundingBoxes c a t isA s v = [anomalyBox c a t s 0]
       \<or> generateBoundingBoxes c a t isA s v = [anomalyBox c a t s 0, anomalyBox c a t s 1]"
proof -
  have one: "[0..<1] = [0::nat]" by simp
  have two: "[0..<2] = [0::nat, 1]" by (simp add: upt_conv_Cons)
  from numBoxes_cases[of s] show ?thesis
  proof
    assume "nat \<lfloor>seededRandom s 10 * 2\<rfloor> + 1 = 1"
    then have "generateBoundingBoxes c a t isA s v = map (anomalyBox c a t s) [0..<1]"
      using anomaly_boxes_map[OF assms, of c a t s v] by (simp only:)
    then show ?thesis by (simp add: one)
  next
    assume "nat \<lfloor>seededRandom s 10 * 2\<rfloor> + 1 = 2"
    then have "generateBoundingBoxes c a t isA s v = map (anomalyBox c a t s) [0..<2]"
      using anomaly_boxes_map[OF assms, of c a t s v] by (simp only:)
    then show ?thesis by (simp add: two)
  qed
qed

lemma anomalyBox_ordered: "boxOrdered (anomalyBox c a t s i)"
proof -
  have "0 \<le> seededRandom s (i * 10 + 22)" "0 \<le> seededRandom s (i * 10 + 23)"
    using seededRandom_range by auto
  then show ?thesis by (simp add: boxOrdered_def anomalyBox_def Let_def)
qed

lemma person_box_ordered:
  assumes "\<not> isA" and "(of_nat (s mod 1000) :: rat) / 1000 \<le> 0.45"
  shows "list_all boxOrdered (generateBoundingBoxes c a t isA s v)"
proof -
  have a: "seededRandom s 2 < 0.9" using assms(2) by (rule seededRandom_small)
  have b: "0 \<le> seededRandom s 4" "seededRandom s 3 < 1" "0 \<le> seededRandom s 5"
    using seededRandom_range by auto
  show ?thesis using assms(1) a b
    by (simp add: generateBoundingBoxes_def boxOrdered_def)
qed

lemma analyzeFile_fallback:
  "supported (mimetype f) \<Longrightarrow> analyzeFile None e f = Fallback (localFallback e f)"
  by (auto simp: analyzeFile_def supported_def Let_def)

lemma fallbackI:
  "supported (mimetype f) \<Longrightarrow> P (localFallback e f)
     \<Longrightarrow> \<exists>r. analyzeFile None e f = Fallback r \<and> P r"
  by (simp add: analyzeFile_fallback)

lemma fallback_boxes:
  "bounding_boxes (localFallback e f) =
     generateBoundingBoxes (rawConfidence f)
       (mc_selectedAnomaly (analyzeMediaContent (originalname f) (mimetype f)))
       (ladderCategory f) (isAnomalyOf f) (charCodeSum (originalname f))
       (mc_isVideo (analyzeMediaContent (originalname f) (mimetype f)))"
  by (simp add: localFallback_def Let_def rawConfidence_def ladderCategory_def isAnomalyOf_def)

lemma not_anomaly_random:
  assumes "\<not> isAnomalyOf f"
  shows "(of_nat (charCodeSum (originalname f) mod 1000) :: rat) / 1000 \<le> 0.45"
proof -
  have "rawConfidence f < 0.5"
  proof (cases "ladderCategory f = js ''normal''")
    case True
    then have "rawConfidence f < 0.35"
      unfolding ladderCategory_def rawConfidence_def by (rule normal_conf)
    then show ?thesis by simp
  next
    case False
    then show ?thesis using assms by (simp add: isAnomalyOf_def)
  qed
  then have "mc_deterministicRandom (analyzeMediaContent (originalname f) (mimetype f)) \<le> 0.45"
    unfolding rawConfidence_def by (rule low_conf_random)
  then show ?thesis by (simp add: mc_random)
qed

lemma fallback_boxes_ordered: "list_all boxOrdered (bounding_boxes (localFallback e f))"
proof (cases "isAnomalyOf f")
  case True
  then show ?thesis
    using anomaly_boxes_cases[of "isAnomalyOf f" "rawConfidence f"
       "mc_selectedAnomaly (analyzeMediaContent (originalname f) (mimetype f))" "ladderCategory f"
       "charCodeSum (originalname f)" "mc_isVideo (analyzeMediaContent (originalname f) (mimetype f))"]
      anomalyBox_ordered
    unfolding fallback_boxes by auto
next
  case False
  then show ?thesis unfolding fallback_boxes
    by (intro person_box_ordered not_anomaly_random)
qed

section \<open>The code's ladder against the specification's\<close>

lemma charCodeSum_sum: "charCodeSum filename = seedOf filename"
proof -
  have "foldl (\<lambda>acc char. acc + char) a xs = a + sum_list xs" for a :: nat and xs
    by (induction xs arbitrary: a) simp_all
  then show ?thesis by (simp add: charCodeSum_def seedOf_def)
qed

lemma some_includes_keywordIn: "some_includes ws (toLowerCase filename) = keywordIn ws filename"
  by (simp add: some_includes_def keywordIn_def)

lemma ladder_refines:
  "case firstMatching (ladderFor mimeType filename) of
     None \<Rightarrow> False
   | Some (cond, c, s, conf) \<Rightarrow>
       cond \<and> mc_selectedAnomaly (analyzeMediaContent filename mimeType) = \<lparr>a_type = js c, a_severity = js s\<rparr>
            \<and> mc_confidence (analyzeMediaContent filename mimeType) = conf"
  unfolding analyzeMediaContent_def Let_def split_def charCodeSum_sum some_includes_keywordIn
    ladderFor_def videoLadder_def imageLadder_def firstMatching_def rOf_def[symmetric]
    weaponWords_def[symmetric] burglaryWords_def[symmetric] fightWords_def[symmetric]
    movementWords_def[symmetric]
  by simp

lemma weapon_keyword_wins:
  "keywordIn weaponWords filename \<Longrightarrow>
     a_type (mc_selectedAnomaly (analyzeMediaContent filename mimeType)) = js ''weapon_detected''"
  unfolding analyzeMediaContent_def Let_def split_def some_includes_keywordIn weaponWords_def[symmetric]
  by simp

lemma robbery_has_weapon_word: "keywordIn weaponWords (js ''armed_robbery_clip.mp4'')"
  by (simp add: keywordIn_def weaponWords_def js_def toLowerCase_def lowerUnit_def)

lemma robbery_has_burglary_word: "keywordIn burglaryWords (js ''armed_robbery_clip.mp4'')"
  by (simp add: keywordIn_def burglaryWords_def js_def toLowerCase_def lowerUnit_def)

section \<open>Fields of the fallback result\<close>

lemma fb_type: "anomalyType (localFallback e f) = ladderCategory f"
  by (simp add: localFallback_def Let_def ladderCategory_def)

lemma fb_severity:
  "severity (localFallback e f) = (if rawConfidence f < 0.50 then js ''uncertain'' else ladderSeverity f)"
  by (simp add: localFallback_def Let_def ladderSeverity_def rawConfidence_def)

lemma fb_confidence: "confidence (localFallback e f) = min 0.99 (max 0.35 (rawConfidence f))"
  by (simp add: localFallback_def Let_def rawConfidence_def)



lemma floor_twice: "\<lfloor>2 * (of_nat n :: rat)\<rfloor> = 2 * int n"
proof -
  have "2 * (of_nat n :: rat) = of_int (2 * int n)" by simp
  then show ?thesis by (simp only: floor_of_int)
qed

lemma fb_time:
  "processingTime (localFallback e f) =
     (if startsWith (mimetype f) (js ''video/'')
      then 2500 + 2 * int (charCodeSum (originalname f) mod 1000)
      else 1500 + int (charCodeSum (originalname f) mod 1000))"
  by (simp add: localFallback_def Let_def mc_video mc_random floor_twice)

lemma fb_clock_only:
  "localFallback e f = (localFallback e' f)\<lparr>metadata := (metadata (localFallback e' f))\<lparr>timestamp := dateNow e\<rparr>\<rparr>"
  by (simp add: localFallback_def Let_def)

lemma ladder_severity_not_uncertain: "ladderSeverity f \<noteq> js ''uncertain''"
  using severity_enum[of "originalname f" "mimetype f"]
  by (auto simp: ladderSeverity_def js_def)

section \<open>Shape of the result\<close>

lemma unsupported_eq:
  "\<not> supported (mimetype f) \<Longrightarrow>
     analyzeFile service e f =
       Unsupported \<lparr>u_anomalyDetected = False, u_confidence = 0,
                    u_modelUsed = js ''PPFL Anomaly Detector v1.2.0'',
                    u_processingTime = dateNow e,
                    u_error = js ''Unsupported file type''\<rparr>"
  by (simp add: analyzeFile_def supported_def Let_def)


lemma fallback_anomaly_boxes:
  assumes "isAnomalyOf f"
  shows "bounding_boxes (localFallback e f) =
           [anomalyBox (rawConfidence f)
              (mc_selectedAnomaly (analyzeMediaContent (originalname f) (mimetype f)))
              (ladderCategory f) (charCodeSum (originalname f)) 0]
       \<or> bounding_boxes (localFallback e f) =
           [anomalyBox (rawConfidence f)
              (mc_selectedAnomaly (analyzeMediaContent (originalname f) (mimetype f)))
              (ladderCategory f) (charCodeSum (originalname f)) 0,
            anomalyBox (rawConfidence f)
              (mc_selectedAnomaly (analyzeMediaContent (originalname f) (mimetype f)))
              (ladderCategory f) (charCodeSum (originalname f)) 1]"
  unfolding fallback_boxes by (rule anomaly_boxes_cases[OF assms])

lemma fallback_box_count:
  "length (bounding_boxes (localFallback e f)) = 1 \<or> length (bounding_boxes (localFallback e f)) = 2"
proof (cases "isAnomalyOf f")
  case True
  from fallback_anomaly_boxes[OF True, of e] show ?thesis by auto
next
  case False
  then show ?thesis unfolding fallback_boxes by (simp add: generateBoundingBoxes_def)
qed

lemma anomalyBox_conf:
  assumes "0 \<le> c" "c \<le> 1"
  shows "0 \<le> bb_confidence (anomalyBox c a t s i) \<and> bb_confidence (anomalyBox c a t s i) \<le> 1"
proof -
  have "0 \<le> seededRandom s (i * 10 + 24)" "seededRandom s (i * 10 + 24) < 1"
    using seededRandom_range by auto
  then show ?thesis using assms by (simp add: anomalyBox_def Let_def)
qed

lemma fallback_box_conf:
  "list_all (\<lambda>b. 0 \<le> bb_confidence b \<and> bb_confidence b \<le> 1) (bounding_boxes (localFallback e f))"
proof (cases "isAnomalyOf f")
  case True
  have c: "0 \<le> rawConfidence f" "rawConfidence f \<le> 1"
    using conf_range[of "originalname f" "mimetype f"] by (simp_all add: rawConfidence_def)
  from fallback_anomaly_boxes[OF True, of e] anomalyBox_conf[OF c]
  show ?thesis by auto
next
  case False
  have "0 \<le> seededRandom (charCodeSum (originalname f)) 1" "seededRandom (charCodeSum (originalname f)) 1 < 1"
    using seededRandom_range by auto
  with False show ?thesis unfolding fallback_boxes by (simp add: generateBoundingBoxes_def)
qed

lemma fallback_wellFormed: "wellFormed (localFallback e f)"
proof -
  have t: "anomalyType (localFallback e f) \<in> set categories"
    unfolding fb_type ladderCategory_def by (rule category_enum)
  have s: "severity (localFallback e f) \<in> set severities"
    using severity_enum[of "originalname f" "mimetype f"]
    by (auto simp: fb_severity ladderSeverity_def severities_def)
  have c: "0 \<le> confidence (localFallback e f)" "confidence (localFallback e f) \<le> 1"
    by (simp_all add: fb_confidence)
  have n: "1 \<le> length (bounding_boxes (localFallback e f))" "length (bounding_boxes (localFallback e f)) \<le> 2"
    using fallback_box_count[of e f] by auto
  have b: "list_all (\<lambda>b. 0 \<le> bb_confidence b \<and> bb_confidence b \<le> 1 \<and> boxOrdered b)
             (bounding_boxes (localFallback e f))"
    using fallback_box_conf[of e f] fallback_boxes_ordered[of e f] by (simp add: list_all_iff)
  have p: "0 \<le> processingTime (localFallback e f)" by (simp add: fb_time)
  from t s c n b p show ?thesis unfolding wellFormed_def by (intro conjI)
qed

lemma anomaly_first_box:
  assumes "isAnomalyOf f"
  shows "class_name (bounding_boxes (localFallback e f) ! 0) = underscoresToSpaces (ladderCategory f)
       \<and> is_anomaly (bounding_boxes (localFallback e f) ! 0)"
proof -
  have r: "replace (ladderCategory f) (js ''_'') (js '' '') = underscoresToSpaces (ladderCategory f)"
    unfolding ladderCategory_def by (rule replace_category[OF category_enum])
  have "class_name (anomalyBox c a (ladderCategory f) s 0) = underscoresToSpaces (ladderCategory f)
        \<and> is_anomaly (anomalyBox c a (ladderCategory f) s 0)" for c a s
    by (simp add: anomalyBox_def Let_def r)
  with fallback_anomaly_boxes[OF assms, of e] show ?thesis by auto
qed

lemma anomaly_other_boxes:
  assumes "isAnomalyOf f" "0 < i" "i < length (bounding_boxes (localFallback e f))"
  shows "class_name (bounding_boxes (localFallback e f) ! i) = js ''person''
       \<and> \<not> is_anomaly (bounding_boxes (localFallback e f) ! i)"
proof -
  have p: "class_name (anomalyBox c a t s 1) = js ''person'' \<and> \<not> is_anomaly (anomalyBox c a t s 1)"
    for c a t s
    by (simp add: anomalyBox_def Let_def)
  from fallback_anomaly_boxes[OF assms(1), of e] assms(2,3) p show ?thesis
    by (auto simp: nth_Cons')
qed

section \<open>Sample evaluations\<close>

lemmas eval_defs = analyzeMediaContent_def generateBoundingBoxes_def
  anomalyBox_def seededRandom_def charCodeSum_def some_includes_def toLowerCase_def lowerUnit_def
  js_def Let_def

lemma supported_samples:
  "supported (mimetype hallway_jpg)" "supported (mimetype corridor_jpg)"
  "supported (mimetype frontdoor_mp4)" "supported (mimetype robbery_mp4)"
  "supported (mimetype unnamed_png)" "supported (mimetype cafe_jpg)"
  "\<not> supported (mimetype report_pdf)"
  by (simp_all add: supported_def js_def hallway_jpg_def corridor_jpg_def frontdoor_mp4_def
        robbery_mp4_def unnamed_png_def cafe_jpg_def report_pdf_def)

lemma corridor_analysis:
  "analyzeMediaContent (originalname corridor_jpg) (mimetype corridor_jpg) =
     \<lparr>mc_selectedAnomaly = \<lparr>a_type = js ''normal'', a_severity = js ''low''\<rparr>,
      mc_confidence = 0.2705, mc_deterministicRandom = 0.235, mc_isVideo = False\<rparr>"
  by (simp add: eval_defs corridor_jpg_def)

lemma hallway_analysis:
  "analyzeMediaContent (originalname hallway_jpg) (mimetype hallway_jpg) =
     \<lparr>mc_selectedAnomaly = \<lparr>a_type = js ''weapon_detected'', a_severity = js ''critical''\<rparr>,
      mc_confidence = 0.9711, mc_deterministicRandom = 0.865, mc_isVideo = False\<rparr>"
  by (simp add: eval_defs hallway_jpg_def)

lemma frontdoor_analysis:
  "analyzeMediaContent (originalname frontdoor_mp4) (mimetype frontdoor_mp4) =
     \<lparr>mc_selectedAnomaly = \<lparr>a_type = js ''loitering'', a_severity = js ''low''\<rparr>,
      mc_confidence = 0.477, mc_deterministicRandom = 0.308, mc_isVideo = True\<rparr>"
  by (simp add: eval_defs frontdoor_mp4_def)

lemma unnamed_analysis:
  "analyzeMediaContent (originalname unnamed_png) (mimetype unnamed_png) =
     \<lparr>mc_selectedAnomaly = \<lparr>a_type = js ''normal'', a_severity = js ''low''\<rparr>,
      mc_confidence = 0.2, mc_deterministicRandom = 0, mc_isVideo = False\<rparr>"
  by (simp add: eval_defs unnamed_png_def)

lemma cafe_analysis:
  "analyzeMediaContent (originalname cafe_jpg) (mimetype cafe_jpg) =
     \<lparr>mc_selectedAnomaly = \<lparr>a_type = js ''weapon_detected'', a_severity = js ''critical''\<rparr>,
      mc_confidence = 0.97572, mc_deterministicRandom = 0.898, mc_isVideo = False\<rparr>"
  by (simp add: eval_defs cafe_jpg_def)

lemma sample_categories:
  "ladderCategory corridor_jpg = js ''normal''" "ladderCategory hallway_jpg = js ''weapon_detected''"
  "ladderCategory frontdoor_mp4 = js ''loitering''"
  by (simp_all add: ladderCategory_def corridor_analysis hallway_analysis frontdoor_analysis)

lemma sample_severities:
  "ladderSeverity hallway_jpg = js ''critical''" "ladderSeverity frontdoor_mp4 = js ''low''"
  by (simp_all add: ladderSeverity_def hallway_analysis frontdoor_analysis)

lemma sample_confidences:
  "rawConfidence corridor_jpg = 0.2705" "rawConfidence hallway_jpg = 0.9711"
  "rawConfidence frontdoor_mp4 = 0.477"
  by (simp_all add: rawConfidence_def corridor_analysis hallway_analysis frontdoor_analysis)

lemma weapon_not_normal: "js ''weapon_detected'' \<noteq> js ''normal''"
  by (simp add: js_def)

lemma fallback_samples:
  "analyzeFile (None :: unit option) e hallway_jpg = Fallback (localFallback e hallway_jpg)"
  "analyzeFile (None :: unit option) e corridor_jpg = Fallback (localFallback e corridor_jpg)"
  "analyzeFile (None :: unit option) e frontdoor_mp4 = Fallback (localFallback e frontdoor_mp4)"
  "analyzeFile (None :: unit option) e unnamed_png = Fallback (localFallback e unnamed_png)"
  "analyzeFile (None :: unit option) e cafe_jpg = Fallback (localFallback e cafe_jpg)"
  by (rule analyzeFile_fallback, rule supported_samples)+

section \<open>Claims\<close>

text \<open>
  C1. For every input whose media type starts with \<open>video/\<close> or \<open>image/\<close>, with the seed
  the sum of the character codes of the file name and \<open>r\<close> the seed modulo 1000 over 1000,
  the category, severity and raw confidence that the code selects are those of the first
  matching rule of the specification's ladder for that media type (the video ladder when
  the type starts with \<open>video/\<close>, the image ladder otherwise). A weapon keyword in the name
  selects \<open>weapon_detected\<close> whatever \<open>r\<close> is, and so does the name
  \<open>armed_robbery_clip.mp4\<close>, which holds a weapon and a burglary keyword.
\<close>

theorem ladder_first_match_wins:
  assumes "supported mimeType"
  shows "(case firstMatching (ladderFor mimeType filename) of
            None \<Rightarrow> False
          | Some (cond, c, s, conf) \<Rightarrow>
              cond \<and> mc_selectedAnomaly (analyzeMediaContent filename mimeType)
                       = \<lparr>a_type = js c, a_severity = js s\<rparr>
                   \<and> mc_confidence (analyzeMediaContent filename mimeType) = conf)
       \<and> (keywordIn weaponWords filename \<longrightarrow>
            a_type (mc_selectedAnomaly (analyzeMediaContent filename mimeType)) = js ''weapon_detected'')
       \<and> keywordIn weaponWords (js ''armed_robbery_clip.mp4'')
       \<and> keywordIn burglaryWords (js ''armed_robbery_clip.mp4'')
       \<and> a_type (mc_selectedAnomaly (analyzeMediaContent (js ''armed_robbery_clip.mp4'') mimeType))
            = js ''weapon_detected''"
proof -
  note ladder_refines[where mimeType = mimeType and filename = filename]
  moreover have "keywordIn weaponWords filename \<longrightarrow>
      a_type (mc_selectedAnomaly (analyzeMediaContent filename mimeType)) = js ''weapon_detected''"
    by (simp add: weapon_keyword_wins)
  moreover note robbery_has_weapon_word robbery_has_burglary_word
  moreover note weapon_keyword_wins[OF robbery_has_weapon_word, where mimeType = mimeType]
  ultimately show ?thesis by (intro conjI)
qed

theorem ladder_first_match_wins_witness:
  "supported (js ''video/mp4'')
   \<and> firstMatching (ladderFor (js ''video/mp4'') (js ''armed_robbery_clip.mp4''))
       = Some (True, ''weapon_detected'', ''critical'', 0.90321)
   \<and> mc_selectedAnomaly (analyzeMediaContent (js ''armed_robbery_clip.mp4'') (js ''video/mp4''))
       = \<lparr>a_type = js ''weapon_detected'', a_severity = js ''critical''\<rparr>
   \<and> mc_confidence (analyzeMediaContent (js ''armed_robbery_clip.mp4'') (js ''video/mp4'')) = 0.90321"
proof -
  have h: "supported (js ''video/mp4'')" by (simp add: supported_def js_def)
  have v: "startsWith (js ''video/mp4'') (js ''video/'')" by (simp add: js_def)
  have r: "rOf (js ''armed_robbery_clip.mp4'') = 0.211" by (simp add: rOf_def seedOf_def js_def)
  have m: "firstMatching (ladderFor (js ''video/mp4'') (js ''armed_robbery_clip.mp4''))
             = Some (True, ''weapon_detected'', ''critical'', 0.90321)"
    using robbery_has_weapon_word by (simp add: firstMatching_def ladderFor_def videoLadder_def v r)
  from ladder_first_match_wins[OF h, of "js ''armed_robbery_clip.mp4''"] h m
  show ?thesis by simp
qed

text \<open>
  C2. For a fixed file name and media type, two separate runs of the fallback classifier,
  whatever the clock reads and whatever \<^verbatim>\<open>Math.random\<close> draws in each, give the same
  \<open>anomalyType\<close>, \<open>severity\<close>, \<open>confidence\<close>, \<open>bounding_boxes\<close> and \<open>description\<close>;
  \<open>processingTime\<close> is the same too, being a function of the seed.
\<close>

theorem two_runs_agree:
  assumes "supported (mimetype f)"
  shows "\<exists>r1 r2. analyzeFile (None :: 's option) e1 f = Fallback r1
           \<and> analyzeFile (None :: 's option) e2 f = Fallback r2
           \<and> anomalyType r1 = anomalyType r2 \<and> severity r1 = severity r2
           \<and> confidence r1 = confidence r2 \<and> bounding_boxes r1 = bounding_boxes r2
           \<and> description r1 = description r2
           \<and> processingTime r1 = processingTime r2
           \<and> processingTime r1 =
               (if startsWith (mimetype f) (js ''video/'')
                then 2500 + 2 * int (seedOf (originalname f) mod 1000)
                else 1500 + int (seedOf (originalname f) mod 1000))"
proof (intro exI conjI)
  show "analyzeFile (None :: 's option) e1 f = Fallback (localFallback e1 f)"
    by (rule analyzeFile_fallback[OF assms])
  show "analyzeFile (None :: 's option) e2 f = Fallback (localFallback e2 f)"
    by (rule analyzeFile_fallback[OF assms])
  show "anomalyType (localFallback e1 f) = anomalyType (localFallback e2 f)"
    by (simp add: fb_type)
  show "severity (localFallback e1 f) = severity (localFallback e2 f)"
    by (simp add: fb_severity)
  show "confidence (localFallback e1 f) = confidence (localFallback e2 f)"
    by (simp add: fb_confidence)
  show "bounding_boxes (localFallback e1 f) = bounding_boxes (localFallback e2 f)"
    by (simp add: fallback_boxes)
  show "description (localFallback e1 f) = description (localFallback e2 f)"
    by (subst fb_clock_only[of e1 f e2]) simp
  show "processingTime (localFallback e1 f) = processingTime (localFallback e2 f)"
    by (simp add: fb_time)
  show "processingTime (localFallback e1 f) =
               (if startsWith (mimetype f) (js ''video/'')
                then 2500 + 2 * int (seedOf (originalname f) mod 1000)
                else 1500 + int (seedOf (originalname f) mod 1000))"
    by (simp add: fb_time charCodeSum_sum)
qed

theorem two_runs_agree_witness:
  "supported (mimetype hallway_jpg) \<and> morning \<noteq> evening
   \<and> (\<exists>r1 r2. analyzeFile (None :: unit option) morning hallway_jpg = Fallback r1
           \<and> analyzeFile (None :: unit option) evening hallway_jpg = Fallback r2
           \<and> anomalyType r1 = anomalyType r2 \<and> severity r1 = severity r2
           \<and> confidence r1 = confidence r2 \<and> bounding_boxes r1 = bounding_boxes r2
           \<and> description r1 = description r2
           \<and> processingTime r1 = processingTime r2
           \<and> processingTime r1 = 2365)"
proof -
  have d: "morning \<noteq> evening" by (simp add: morning_def evening_def)
  have v: "\<not> startsWith (mimetype hallway_jpg) (js ''video/'')" by (simp add: hallway_jpg_def js_def)
  have s: "seedOf (originalname hallway_jpg) = 1865" by (simp add: seedOf_def hallway_jpg_def js_def)
  from two_runs_agree[OF supported_samples(1), of morning evening, where 's = unit]
  have "\<exists>r1 r2. analyzeFile (None :: unit option) morning hallway_jpg = Fallback r1
           \<and> analyzeFile (None :: unit option) evening hallway_jpg = Fallback r2
           \<and> anomalyType r1 = anomalyType r2 \<and> severity r1 = severity r2
           \<and> confidence r1 = confidence r2 \<and> bounding_boxes r1 = bounding_boxes r2
           \<and> description r1 = description r2
           \<and> processingTime r1 = processingTime r2
           \<and> processingTime r1 = 2365"
    by (simp add: v s)
  with supported_samples(1) d show ?thesis by (intro conjI)
qed

text \<open>
  C3. For every supported input, every bounding box \<open>(x1, y1, x2, y2)\<close> of the result has
  \<open>x1 < x2\<close> and \<open>y1 < y2\<close>, the single \<open>person\<close> box of a result without anomaly as well
  as every box of a result with one.
\<close>

theorem bounding_boxes_ordered:
  assumes "supported (mimetype f)"
  shows "\<exists>r. analyzeFile None e f = Fallback r
           \<and> (\<forall>b \<in> set (bounding_boxes r).
                 \<forall>x1 y1 x2 y2. bbox b = (x1, y1, x2, y2) \<longrightarrow> x1 < x2 \<and> y1 < y2)"
proof (rule fallbackI[OF assms])
  have "\<forall>b \<in> set (bounding_boxes (localFallback e f)). boxOrdered b"
    using fallback_boxes_ordered[of e f] by (simp add: list_all_iff)
  then show "\<forall>b \<in> set (bounding_boxes (localFallback e f)).
               \<forall>x1 y1 x2 y2. bbox b = (x1, y1, x2, y2) \<longrightarrow> x1 < x2 \<and> y1 < y2"
    by (auto simp: boxOrdered_def)
qed

theorem bounding_boxes_ordered_witness:
  "supported (mimetype corridor_jpg)
   \<and> (\<exists>r. analyzeFile (None :: unit option) morning corridor_jpg = Fallback r
          \<and> length (bounding_boxes r) = 1
          \<and> (\<forall>b \<in> set (bounding_boxes r).
                \<forall>x1 y1 x2 y2. bbox b = (x1, y1, x2, y2) \<longrightarrow> x1 < x2 \<and> y1 < y2))
   \<and> supported (mimetype hallway_jpg)
   \<and> (\<exists>r. analyzeFile (None :: unit option) morning hallway_jpg = Fallback r
          \<and> length (bounding_boxes r) = 2
          \<and> (\<forall>b \<in> set (bounding_boxes r).
                \<forall>x1 y1 x2 y2. bbox b = (x1, y1, x2, y2) \<longrightarrow> x1 < x2 \<and> y1 < y2))"
proof -
  have c: "length (bounding_boxes (localFallback morning corridor_jpg)) = 1"
    by (simp add: localFallback_def eval_defs corridor_jpg_def)
  have h: "length (bounding_boxes (localFallback morning hallway_jpg)) = 2"
    by (simp add: localFallback_def eval_defs hallway_jpg_def)
  have fc: "analyzeFile (None :: unit option) morning corridor_jpg
              = Fallback (localFallback morning corridor_jpg)"
    by (rule analyzeFile_fallback[OF supported_samples(2)])
  have fh: "analyzeFile (None :: unit option) morning hallway_jpg
              = Fallback (localFallback morning hallway_jpg)"
    by (rule analyzeFile_fallback[OF supported_samples(1)])
  have oc: "\<exists>r. analyzeFile (None :: unit option) morning corridor_jpg = Fallback r
           \<and> (\<forall>b \<in> set (bounding_boxes r).
                 \<forall>x1 y1 x2 y2. bbox b = (x1, y1, x2, y2) \<longrightarrow> x1 < x2 \<and> y1 < y2)"
    by (rule bounding_boxes_ordered[OF supported_samples(2)])
  have oh: "\<exists>r. analyzeFile (None :: unit option) morning hallway_jpg = Fallback r
           \<and> (\<forall>b \<in> set (bounding_boxes r).
                 \<forall>x1 y1 x2 y2. bbox b = (x1, y1, x2, y2) \<longrightarrow> x1 < x2 \<and> y1 < y2)"
    by (rule bounding_boxes_ordered[OF supported_samples(1)])
  from oc oh c h supported_samples(1,2) show ?thesis
    unfolding fc fh by simp
qed

text \<open>
  C4, as amended. For a fixed file name and media type, two runs of the fallback classifier
  give results that agree in every field except \<open>metadata.timestamp\<close>, which is the wall
  clock of the run; \<open>processingTime\<close> is a function of the seed and not elapsed time. For
  an unsupported type the two results agree in \<open>anomalyDetected\<close>, \<open>confidence\<close>,
  \<open>modelUsed\<close> and \<open>error\<close>.
\<close>

theorem results_agree_up_to_clock:
  "(supported (mimetype f) \<longrightarrow>
      (\<exists>r1 r2. analyzeFile (None :: 's option) e1 f = Fallback r1
          \<and> analyzeFile (None :: 's option) e2 f = Fallback r2
          \<and> r1 = r2\<lparr>metadata := (metadata r2)\<lparr>timestamp := timestamp (metadata r1)\<rparr>\<rparr>
          \<and> timestamp (metadata r1) = dateNow e1
          \<and> processingTime r1 =
               (if startsWith (mimetype f) (js ''video/'')
                then 2500 + 2 * int (seedOf (originalname f) mod 1000)
                else 1500 + int (seedOf (originalname f) mod 1000))))
   \<and> (\<not> supported (mimetype f) \<longrightarrow>
      (\<exists>u1 u2. analyzeFile (service1 :: 's option) e1 f = Unsupported u1
          \<and> analyzeFile (service2 :: 's option) e2 f = Unsupported u2
          \<and> u_anomalyDetected u1 = u_anomalyDetected u2 \<and> u_confidence u1 = u_confidence u2
          \<and> u_modelUsed u1 = u_modelUsed u2 \<and> u_error u1 = u_error u2))"
proof (intro conjI impI)
  assume s: "supported (mimetype f)"
  have t: "timestamp (metadata (localFallback e1 f)) = dateNow e1"
    by (simp add: localFallback_def Let_def)
  show "\<exists>r1 r2. analyzeFile (None :: 's option) e1 f = Fallback r1
          \<and> analyzeFile (None :: 's option) e2 f = Fallback r2
          \<and> r1 = r2\<lparr>metadata := (metadata r2)\<lparr>timestamp := timestamp (metadata r1)\<rparr>\<rparr>
          \<and> timestamp (metadata r1) = dateNow e1
          \<and> processingTime r1 =
               (if startsWith (mimetype f) (js ''video/'')
                then 2500 + 2 * int (seedOf (originalname f) mod 1000)
                else 1500 + int (seedOf (originalname f) mod 1000))"
  proof (intro exI conjI)
    show "analyzeFile (None :: 's option) e1 f = Fallback (localFallback e1 f)"
      by (rule analyzeFile_fallback[OF s])
    show "analyzeFile (None :: 's option) e2 f = Fallback (localFallback e2 f)"
      by (rule analyzeFile_fallback[OF s])
    show "localFallback e1 f = (localFallback e2 f)\<lparr>metadata := (metadata (localFallback e2 f))
            \<lparr>timestamp := timestamp (metadata (localFallback e1 f))\<rparr>\<rparr>"
      unfolding t by (rule fb_clock_only)
    show "timestamp (metadata (localFallback e1 f)) = dateNow e1" by (rule t)
    show "processingTime (localFallback e1 f) =
               (if startsWith (mimetype f) (js ''video/'')
                then 2500 + 2 * int (seedOf (originalname f) mod 1000)
                else 1500 + int (seedOf (originalname f) mod 1000))"
      by (simp add: fb_time charCodeSum_sum)
  qed
next
  assume n: "\<not> supported (mimetype f)"
  show "\<exists>u1 u2. analyzeFile (service1 :: 's option) e1 f = Unsupported u1
          \<and> analyzeFile (service2 :: 's option) e2 f = Unsupported u2
          \<and> u_anomalyDetected u1 = u_anomalyDetected u2 \<and> u_confidence u1 = u_confidence u2
          \<and> u_modelUsed u1 = u_modelUsed u2 \<and> u_error u1 = u_error u2"
    by (simp add: unsupported_eq[OF n])
qed

theorem results_agree_up_to_clock_witness:
  "supported (mimetype hallway_jpg)
   \<and> (\<exists>r1 r2. analyzeFile (None :: unit option) morning hallway_jpg = Fallback r1
          \<and> analyzeFile (None :: unit option) evening hallway_jpg = Fallback r2
          \<and> r1 = r2\<lparr>metadata := (metadata r2)\<lparr>timestamp := timestamp (metadata r1)\<rparr>\<rparr>
          \<and> timestamp (metadata r1) = 1755265138394
          \<and> processingTime r1 = 2365)
   \<and> \<not> supported (mimetype report_pdf)
   \<and> (\<exists>u1 u2. analyzeFile (None :: unit option) morning report_pdf = Unsupported u1
          \<and> analyzeFile (None :: unit option) evening report_pdf = Unsupported u2
          \<and> u_anomalyDetected u1 = u_anomalyDetected u2 \<and> u_confidence u1 = u_confidence u2
          \<and> u_modelUsed u1 = u_modelUsed u2 \<and> u_error u1 = u_error u2)"
proof -
  have v: "\<not> startsWith (mimetype hallway_jpg) (js ''video/'')" by (simp add: hallway_jpg_def js_def)
  have s: "seedOf (originalname hallway_jpg) = 1865" by (simp add: seedOf_def hallway_jpg_def js_def)
  have d: "dateNow morning = 1755265138394" by (simp add: morning_def)
  from results_agree_up_to_clock[where 's = unit, where f = hallway_jpg and ?e1.0 = morning
      and ?e2.0 = evening]
    supported_samples(1)
  have a: "\<exists>r1 r2. analyzeFile (None :: unit option) morning hallway_jpg = Fallback r1
          \<and> analyzeFile (None :: unit option) evening hallway_jpg = Fallback r2
          \<and> r1 = r2\<lparr>metadata := (metadata r2)\<lparr>timestamp := timestamp (metadata r1)\<rparr>\<rparr>
          \<and> timestamp (metadata r1) = 1755265138394
          \<and> processingTime r1 = 2365"
    by (simp add: v s d)
  from results_agree_up_to_clock[where 's = unit, where f = report_pdf and ?e1.0 = morning
      and ?e2.0 = evening and ?service1.0 = None and ?service2.0 = None]
    supported_samples(7)
  have b: "\<exists>u1 u2. analyzeFile (None :: unit option) morning report_pdf = Unsupported u1
          \<and> analyzeFile (None :: unit option) evening report_pdf = Unsupported u2
          \<and> u_anomalyDetected u1 = u_anomalyDetected u2 \<and> u_confidence u1 = u_confidence u2
          \<and> u_modelUsed u1 = u_modelUsed u2 \<and> u_error u1 = u_error u2"
    by simp
  from supported_samples(1) a supported_samples(7) b show ?thesis by (intro conjI)
qed

text \<open>
  Without the exception for the time stamp the statement fails: the same upload analysed
  at two clock readings gives two different objects, on the fallback path and on the
  unsupported-type path.
\<close>

theorem clock_changes_result_counterexample:
  "analyzeFile (None :: unit option) morning hallway_jpg = Fallback (localFallback morning hallway_jpg)
   \<and> analyzeFile (None :: unit option) evening hallway_jpg = Fallback (localFallback evening hallway_jpg)
   \<and> timestamp (metadata (localFallback morning hallway_jpg)) = 1755265138394
   \<and> timestamp (metadata (localFallback evening hallway_jpg)) = 1755265268138
   \<and> analyzeFile (None :: unit option) morning hallway_jpg \<noteq> analyzeFile None evening hallway_jpg
   \<and> analyzeFile (None :: unit option) morning report_pdf \<noteq> analyzeFile None evening report_pdf"
proof -
  have m: "timestamp (metadata (localFallback morning hallway_jpg)) = 1755265138394"
    by (simp add: localFallback_def Let_def morning_def)
  have e: "timestamp (metadata (localFallback evening hallway_jpg)) = 1755265268138"
    by (simp add: localFallback_def Let_def evening_def)
  have "localFallback morning hallway_jpg \<noteq> localFallback evening hallway_jpg"
    using m e by auto
  then have h: "analyzeFile (None :: unit option) morning hallway_jpg \<noteq> analyzeFile None evening hallway_jpg"
    by (simp add: fallback_samples)
  have p: "analyzeFile (None :: unit option) morning report_pdf \<noteq> analyzeFile None evening report_pdf"
    by (simp add: unsupported_eq[OF supported_samples(7)] morning_def evening_def)
  from fallback_samples(1)[of morning] fallback_samples(1)[of evening] m e h p
  show ?thesis by (intro conjI)
qed

text \<open>
  C5. For every input whose media type starts with neither \<open>image/\<close> nor \<open>video/\<close> (such
  as \<open>application/pdf\<close>), the call returns an object with \<open>anomalyDetected\<close> false,
  \<open>confidence\<close> zero and an \<open>error\<close> marker, and with no bounding boxes.
\<close>

theorem unsupported_type_result:
  assumes "\<not> supported (mimetype f)"
  shows "\<exists>u. analyzeFile service e f = Unsupported u
           \<and> \<not> u_anomalyDetected u \<and> u_confidence u = 0
           \<and> u_error u = js ''Unsupported file type''
           \<and> boxesOf (analyzeFile service e f) = None"
  by (simp add: unsupported_eq[OF assms] boxesOf_def)

theorem unsupported_type_result_witness:
  "mimetype report_pdf = js ''application/pdf'' \<and> \<not> supported (mimetype report_pdf)
   \<and> (\<exists>u. analyzeFile (None :: unit option) morning report_pdf = Unsupported u
           \<and> \<not> u_anomalyDetected u \<and> u_confidence u = 0
           \<and> u_error u = js ''Unsupported file type''
           \<and> boxesOf (analyzeFile (None :: unit option) morning report_pdf) = None)"
proof -
  have m: "mimetype report_pdf = js ''application/pdf''" by (simp add: report_pdf_def)
  have "\<exists>u. analyzeFile (None :: unit option) morning report_pdf = Unsupported u
           \<and> \<not> u_anomalyDetected u \<and> u_confidence u = 0
           \<and> u_error u = js ''Unsupported file type''
           \<and> boxesOf (analyzeFile (None :: unit option) morning report_pdf) = None"
    by (rule unsupported_type_result[OF supported_samples(7)])
  with m supported_samples(7) show ?thesis by (intro conjI)
qed

text \<open>
  C6. For every supported input, a result without anomaly (ladder category \<open>normal\<close>, or
  raw confidence below 0.50) has exactly one bounding box, and a result with an anomaly
  has one or two; there the first box carries the category name with underscores replaced
  by spaces and \<open>is_anomaly\<close> true, and any further box is a \<open>person\<close> with \<open>is_anomaly\<close>
  false.
\<close>

theorem box_count_and_labels:
  assumes "supported (mimetype f)"
  shows "\<exists>r. analyzeFile None e f = Fallback r
           \<and> (ladderCategory f = js ''normal'' \<or> rawConfidence f < 0.50
                 \<longrightarrow> length (bounding_boxes r) = 1)
           \<and> (ladderCategory f \<noteq> js ''normal'' \<and> rawConfidence f \<ge> 0.50
                 \<longrightarrow> (length (bounding_boxes r) = 1 \<or> length (bounding_boxes r) = 2)
                   \<and> class_name (bounding_boxes r ! 0) = underscoresToSpaces (anomalyType r)
                   \<and> is_anomaly (bounding_boxes r ! 0)
                   \<and> (\<forall>i. 0 < i \<and> i < length (bounding_boxes r)
                          \<longrightarrow> class_name (bounding_boxes r ! i) = js ''person''
                              \<and> \<not> is_anomaly (bounding_boxes r ! i)))"
proof (rule fallbackI[OF assms], intro conjI impI allI)
  assume "ladderCategory f = js ''normal'' \<or> rawConfidence f < 0.50"
  then have "\<not> isAnomalyOf f" by (auto simp: isAnomalyOf_def)
  then show "length (bounding_boxes (localFallback e f)) = 1"
    by (simp add: fallback_boxes generateBoundingBoxes_def)
next
  assume "ladderCategory f \<noteq> js ''normal'' \<and> rawConfidence f \<ge> 0.50"
  then have a: "isAnomalyOf f" by (simp add: isAnomalyOf_def)
  show "length (bounding_boxes (localFallback e f)) = 1 \<or> length (bounding_boxes (localFallback e f)) = 2"
    by (rule fallback_box_count)
  show "class_name (bounding_boxes (localFallback e f) ! 0)
          = underscoresToSpaces (anomalyType (localFallback e f))"
    using anomaly_first_box[OF a, of e] by (simp add: fb_type)
  show "is_anomaly (bounding_boxes (localFallback e f) ! 0)"
    using anomaly_first_box[OF a, of e] by simp
  fix i assume "0 < i \<and> i < length (bounding_boxes (localFallback e f))"
  then have i: "0 < i" "i < length (bounding_boxes (localFallback e f))" by simp_all
  show "class_name (bounding_boxes (localFallback e f) ! i) = js ''person''"
    using anomaly_other_boxes[OF a i] by simp
  show "\<not> is_anomaly (bounding_boxes (localFallback e f) ! i)"
    using anomaly_other_boxes[OF a i] by simp
qed

theorem box_count_and_labels_witness:
  "supported (mimetype corridor_jpg) \<and> ladderCategory corridor_jpg = js ''normal''
   \<and> (\<exists>r. analyzeFile (None :: unit option) morning corridor_jpg = Fallback r
          \<and> length (bounding_boxes r) = 1)
   \<and> supported (mimetype hallway_jpg)
   \<and> ladderCategory hallway_jpg \<noteq> js ''normal'' \<and> rawConfidence hallway_jpg \<ge> 0.50
   \<and> (\<exists>r. analyzeFile (None :: unit option) morning hallway_jpg = Fallback r
          \<and> length (bounding_boxes r) = 2
          \<and> class_name (bounding_boxes r ! 0) = js ''weapon detected''
          \<and> is_anomaly (bounding_boxes r ! 0)
          \<and> class_name (bounding_boxes r ! 1) = js ''person''
          \<and> \<not> is_anomaly (bounding_boxes r ! 1))"
proof -
  have cn: "ladderCategory corridor_jpg = js ''normal''" by (rule sample_categories)
  have hn: "ladderCategory hallway_jpg \<noteq> js ''normal''"
    by (simp add: sample_categories weapon_not_normal)
  have hc: "rawConfidence hallway_jpg \<ge> 0.50" by (simp add: sample_confidences)
  have len: "length (bounding_boxes (localFallback morning hallway_jpg)) = 2"
    by (simp add: localFallback_def eval_defs hallway_jpg_def)
  have lab: "underscoresToSpaces (js ''weapon_detected'') = js ''weapon detected''"
    by (simp add: underscoresToSpaces_def js_def)
  have "\<exists>r. analyzeFile (None :: unit option) morning corridor_jpg = Fallback r
           \<and> (ladderCategory corridor_jpg = js ''normal'' \<or> rawConfidence corridor_jpg < 0.50
                 \<longrightarrow> length (bounding_boxes r) = 1)
           \<and> (ladderCategory corridor_jpg \<noteq> js ''normal'' \<and> rawConfidence corridor_jpg \<ge> 0.50
                 \<longrightarrow> (length (bounding_boxes r) = 1 \<or> length (bounding_boxes r) = 2)
                   \<and> class_name (bounding_boxes r ! 0) = underscoresToSpaces (anomalyType r)
                   \<and> is_anomaly (bounding_boxes r ! 0)
                   \<and> (\<forall>i. 0 < i \<and> i < length (bounding_boxes r)
                          \<longrightarrow> class_name (bounding_boxes r ! i) = js ''person''
                              \<and> \<not> is_anomaly (bounding_boxes r ! i)))"
    by (rule box_count_and_labels[OF supported_samples(2)])
  then have c: "\<exists>r. analyzeFile (None :: unit option) morning corridor_jpg = Fallback r
          \<and> length (bounding_boxes r) = 1"
    using cn by auto
  have "\<exists>r. analyzeFile (None :: unit option) morning hallway_jpg = Fallback r
           \<and> (ladderCategory hallway_jpg = js ''normal'' \<or> rawConfidence hallway_jpg < 0.50
                 \<longrightarrow> length (bounding_boxes r) = 1)
           \<and> (ladderCategory hallway_jpg \<noteq> js ''normal'' \<and> rawConfidence hallway_jpg \<ge> 0.50
                 \<longrightarrow> (length (bounding_boxes r) = 1 \<or> length (bounding_boxes r) = 2)
                   \<and> class_name (bounding_boxes r ! 0) = underscoresToSpaces (anomalyType r)
                   \<and> is_anomaly (bounding_boxes r ! 0)
                   \<and> (\<forall>i. 0 < i \<and> i < length (bounding_boxes r)
                          \<longrightarrow> class_name (bounding_boxes r ! i) = js ''person''
                              \<and> \<not> is_anomaly (bounding_boxes r ! i)))"
    by (rule box_count_and_labels[OF supported_samples(1)])
  then have h: "\<exists>r. analyzeFile (None :: unit option) morning hallway_jpg = Fallback r
          \<and> length (bounding_boxes r) = 2
          \<and> class_name (bounding_boxes r ! 0) = js ''weapon detected''
          \<and> is_anomaly (bounding_boxes r ! 0)
          \<and> class_name (bounding_boxes r ! 1) = js ''person''
          \<and> \<not> is_anomaly (bounding_boxes r ! 1)"
    using hn hc len lab unfolding fallback_samples
    by (simp add: fb_type sample_categories)
  from supported_samples(2) cn c supported_samples(1) hn hc h show ?thesis by (intro conjI)
qed

text \<open>
  C7. For every supported input, the severity of the result is \<open>uncertain\<close> exactly when
  the raw ladder confidence is below 0.50; from 0.50 on it is the ladder's severity.
\<close>

theorem severity_uncertain_iff:
  assumes "supported (mimetype f)"
  shows "\<exists>r. analyzeFile None e f = Fallback r
           \<and> (severity r = js ''uncertain'' \<longleftrightarrow> rawConfidence f < 0.50)
           \<and> (rawConfidence f \<ge> 0.50 \<longrightarrow> severity r = ladderSeverity f)"
proof (rule fallbackI[OF assms])
  show "(severity (localFallback e f) = js ''uncertain'' \<longleftrightarrow> rawConfidence f < 0.50)
           \<and> (rawConfidence f \<ge> 0.50 \<longrightarrow> severity (localFallback e f) = ladderSeverity f)"
    using ladder_severity_not_uncertain[of f] by (simp add: fb_severity)
qed

theorem severity_uncertain_iff_witness:
  "supported (mimetype frontdoor_mp4) \<and> rawConfidence frontdoor_mp4 < 0.50
   \<and> (\<exists>r. analyzeFile (None :: unit option) morning frontdoor_mp4 = Fallback r
          \<and> severity r = js ''uncertain'')
   \<and> supported (mimetype hallway_jpg) \<and> rawConfidence hallway_jpg \<ge> 0.50
   \<and> (\<exists>r. analyzeFile (None :: unit option) morning hallway_jpg = Fallback r
          \<and> severity r = js ''critical'')"
proof -
  have fc: "rawConfidence frontdoor_mp4 < 0.50" by (simp add: sample_confidences)
  have hc: "rawConfidence hallway_jpg \<ge> 0.50" by (simp add: sample_confidences)
  have "\<exists>r. analyzeFile (None :: unit option) morning frontdoor_mp4 = Fallback r
           \<and> (severity r = js ''uncertain'' \<longleftrightarrow> rawConfidence frontdoor_mp4 < 0.50)
           \<and> (rawConfidence frontdoor_mp4 \<ge> 0.50 \<longrightarrow> severity r = ladderSeverity frontdoor_mp4)"
    by (rule severity_uncertain_iff[OF supported_samples(3)])
  then have a: "\<exists>r. analyzeFile (None :: unit option) morning frontdoor_mp4 = Fallback r
          \<and> severity r = js ''uncertain''"
    using fc by auto
  have "\<exists>r. analyzeFile (None :: unit option) morning hallway_jpg = Fallback r
           \<and> (severity r = js ''uncertain'' \<longleftrightarrow> rawConfidence hallway_jpg < 0.50)
           \<and> (rawConfidence hallway_jpg \<ge> 0.50 \<longrightarrow> severity r = ladderSeverity hallway_jpg)"
    by (rule severity_uncertain_iff[OF supported_samples(1)])
  then have b: "\<exists>r. analyzeFile (None :: unit option) morning hallway_jpg = Fallback r
          \<and> severity r = js ''critical''"
    using hc by (auto simp: sample_severities)
  from supported_samples(3) fc a supported_samples(1) hc b show ?thesis by (intro conjI)
qed

text \<open>
  C8. For every supported input the reported confidence is the raw ladder confidence
  clamped to the interval from 0.35 to 0.99, and so lies in that closed interval.
\<close>

theorem display_confidence_clamped:
  assumes "supported (mimetype f)"
  shows "\<exists>r. analyzeFile None e f = Fallback r
           \<and> confidence r = clamp (rawConfidence f) 0.35 0.99
           \<and> 0.35 \<le> confidence r \<and> confidence r \<le> 0.99"
proof (rule fallbackI[OF assms])
  show "confidence (localFallback e f) = clamp (rawConfidence f) 0.35 0.99
          \<and> 0.35 \<le> confidence (localFallback e f) \<and> confidence (localFallback e f) \<le> 0.99"
    by (simp add: localFallback_def rawConfidence_def clamp_def Let_def)
qed

theorem display_confidence_clamped_witness:
  "supported (mimetype corridor_jpg)
   \<and> rawConfidence corridor_jpg = 0.2705
   \<and> (\<exists>r. analyzeFile (None :: unit option) morning corridor_jpg = Fallback r
          \<and> confidence r = clamp (rawConfidence corridor_jpg) 0.35 0.99
          \<and> 0.35 \<le> confidence r \<and> confidence r \<le> 0.99)"
proof -
  have c: "rawConfidence corridor_jpg = 0.2705"
    by (simp add: rawConfidence_def eval_defs corridor_jpg_def)
  have "\<exists>r. analyzeFile (None :: unit option) morning corridor_jpg = Fallback r
          \<and> confidence r = clamp (rawConfidence corridor_jpg) 0.35 0.99
          \<and> 0.35 \<le> confidence r \<and> confidence r \<le> 0.99"
    by (rule display_confidence_clamped[OF supported_samples(2)])
  with supported_samples(2) c show ?thesis by (intro conjI)
qed

text \<open>
  C9. For every file name and every media type the classifier returns: a well-formed
  classification when the type starts with \<open>image/\<close> or \<open>video/\<close>, the unsupported-type
  object otherwise. Every string is a seed source, the empty name and names outside ASCII
  included. None of the operations modelled above can throw, and the loop over the boxes
  terminates.
\<close>

theorem classifier_always_returns:
  "(supported (mimetype f) \<longrightarrow>
      (\<exists>r. analyzeFile (None :: 's option) e f = Fallback r \<and> wellFormed r))
   \<and> (\<not> supported (mimetype f) \<longrightarrow>
      (\<exists>u. analyzeFile (service :: 's option) e f = Unsupported u))"
proof (intro conjI impI)
  assume "supported (mimetype f)"
  then show "\<exists>r. analyzeFile (None :: 's option) e f = Fallback r \<and> wellFormed r"
    by (rule fallbackI) (rule fallback_wellFormed)
next
  assume "\<not> supported (mimetype f)"
  then show "\<exists>u. analyzeFile (service :: 's option) e f = Unsupported u"
    by (simp add: unsupported_eq)
qed

theorem classifier_always_returns_witness:
  "originalname unnamed_png = [] \<and> supported (mimetype unnamed_png)
   \<and> (\<exists>r. analyzeFile (None :: unit option) morning unnamed_png = Fallback r \<and> wellFormed r
          \<and> anomalyType r = js ''normal'')
   \<and> \<not> list_all (\<lambda>c. c < 128) (originalname cafe_jpg) \<and> supported (mimetype cafe_jpg)
   \<and> (\<exists>r. analyzeFile (None :: unit option) morning cafe_jpg = Fallback r \<and> wellFormed r
          \<and> anomalyType r = js ''weapon_detected'')
   \<and> \<not> supported (mimetype report_pdf)
   \<and> (\<exists>u. analyzeFile (None :: unit option) morning report_pdf = Unsupported u)"
proof -
  have u0: "originalname unnamed_png = []" by (simp add: unnamed_png_def)
  have c0: "\<not> list_all (\<lambda>c. c < 128) (originalname cafe_jpg)" by (simp add: cafe_jpg_def)
  have ut: "anomalyType (localFallback morning unnamed_png) = js ''normal''"
    by (simp add: fb_type ladderCategory_def unnamed_analysis)
  have ct: "anomalyType (localFallback morning cafe_jpg) = js ''weapon_detected''"
    by (simp add: fb_type ladderCategory_def cafe_analysis)
  from classifier_always_returns[where 's = unit, where f = unnamed_png and e = morning]
    supported_samples(5) ut
  have a: "\<exists>r. analyzeFile (None :: unit option) morning unnamed_png = Fallback r \<and> wellFormed r
          \<and> anomalyType r = js ''normal''"
    unfolding fallback_samples by simp
  from classifier_always_returns[where 's = unit, where f = cafe_jpg and e = morning]
    supported_samples(6) ct
  have b: "\<exists>r. analyzeFile (None :: unit option) morning cafe_jpg = Fallback r \<and> wellFormed r
          \<and> anomalyType r = js ''weapon_detected''"
    unfolding fallback_samples by simp
  from classifier_always_returns[where 's = unit, where f = report_pdf and e = morning
      and service = None] supported_samples(7)
  have c: "\<exists>u. analyzeFile (None :: unit option) morning report_pdf = Unsupported u"
    by simp
  from u0 supported_samples(5) a c0 supported_samples(6) b supported_samples(7) c
  show ?thesis by (intro conjI)
qed



end
